theory Spec2Isabelle
  imports Complex_Main
begin

section \<open>Landscape-evolution notebooks: the time-stepping drivers\<close>

text \<open>
  The notebooks configure a grid, set parameters, and advance an elevation field in a
  loop: uplift of the core nodes, one step of each process component, and a clock.
  The process components, the grid's node classification and the random generator
  belong to the libraries the notebooks import; they enter the development as
  parameters. Finite floating-point numbers are read as exact reals, so the equations
  about elevations and clocks are equations of exact arithmetic. Where rounding decides
  a whole number (the iteration count of the hillslope notebooks) that number is the
  host's, a parameter; where the host's arithmetic leaves the finite numbers (a
  division by zero) the infinities and nan are values of their own.
\<close>

subsection \<open>Host numbers and errors\<close>

datatype error = ZeroDivisionError | OverflowError | ValueError

text \<open>Python's \<^verbatim>\<open>a / b\<close> on its own floats: a zero divisor raises.\<close>

definition truediv :: "real \<Rightarrow> real \<Rightarrow> error + real" where
  "truediv a b = (if b = 0 then Inl ZeroDivisionError else Inr (a / b))"

text \<open>
  Modelled from the spec: the number type of \<open>mg.dx\<close> is the library's, numpy's
  float64, and so is every number computed from it. A finite value is read as an exact
  real; besides these there are the two infinities and nan. Dividing such a number by
  zero raises nothing: the result is an infinity or nan (with a warning), the
  degenerate timestep of a diffusivity of zero.
\<close>

datatype float64 = Finite real | PosInf | NegInf | NaN

text \<open>numpy's \<^verbatim>\<open>a / b\<close> for finite \<open>a\<close> and \<open>b\<close>.\<close>

definition np_divide :: "real \<Rightarrow> real \<Rightarrow> float64" where
  "np_divide a b =
     (if b \<noteq> 0 then Finite (a / b)
      else if 0 < a then PosInf else if a < 0 then NegInf else NaN)"

text \<open>numpy's \<^verbatim>\<open>a * b\<close> for a finite \<open>a\<close>.\<close>

definition np_multiply :: "real \<Rightarrow> float64 \<Rightarrow> float64" where
  "np_multiply a b =
     (case b of
        Finite h \<Rightarrow> Finite (a * h)
      | PosInf \<Rightarrow> (if 0 < a then PosInf else if a < 0 then NegInf else NaN)
      | NegInf \<Rightarrow> (if 0 < a then NegInf else if a < 0 then PosInf else NaN)
      | NaN \<Rightarrow> NaN)"

text \<open>
  \<^verbatim>\<open>int(a // b)\<close> for a finite \<open>a\<close> and a float64 \<open>b\<close>. For a finite \<open>b\<close> other than
  zero the floor is taken of a quotient of doubles; \<open>b\<close> is itself a rounded quotient,
  so the exact reals do not fix the result where the quotient is close to an integer
  (\<^verbatim>\<open>1 // 0.1\<close> is 9). That case is the host's operation, the parameter
  \<open>floor_divide\<close>. With \<open>b\<close> zero, \<^verbatim>\<open>a // b\<close> is an infinity or nan, and \<^verbatim>\<open>int\<close> of an
  infinity raises OverflowError, of nan ValueError. With \<open>b\<close> infinite the quotient is
  0 or -1.
\<close>

definition int_floor_divide :: "(real \<Rightarrow> real \<Rightarrow> int) \<Rightarrow> real \<Rightarrow> float64 \<Rightarrow> error + int" where
  "int_floor_divide floor_divide a b =
     (case b of
        Finite h \<Rightarrow>
          (if h \<noteq> 0 then Inr (floor_divide a h)
           else if a = 0 then Inl ValueError else Inl OverflowError)
      | PosInf \<Rightarrow> Inr (if 0 \<le> a then 0 else - 1)
      | NegInf \<Rightarrow> Inr (if 0 < a then - 1 else 0)
      | NaN \<Rightarrow> Inl ValueError)"

subsection \<open>Grid and field store\<close>

text \<open>
  Modelled from the spec: the grid is the library's. Its nodes are numbered from 0 and
  each is classified as core, fixed-value boundary or closed boundary; the core nodes
  are the indices classified as core, in increasing order.
\<close>

datatype node_status = Core | FixedValue | Closed

record grid =
  number_of_node_rows :: nat
  number_of_node_columns :: nat
  dx :: real
  status_at_node :: "node_status list"

definition number_of_nodes :: "grid \<Rightarrow> nat" where
  "number_of_nodes g = length (status_at_node g)"

definition core_nodes :: "grid \<Rightarrow> nat list" where
  "core_nodes g = filter (\<lambda>i. status_at_node g ! i = Core) [0..<number_of_nodes g]"

definition boundary_nodes :: "grid \<Rightarrow> nat list" where
  "boundary_nodes g = filter (\<lambda>i. status_at_node g ! i \<noteq> Core) [0..<number_of_nodes g]"

text \<open>
  The field store: the elevation array (index = node id) and, in \<open>other_fields\<close>,
  everything else the library keeps at the grid (slope, drainage area, the components'
  own arrays).
\<close>

record 'x fields =
  topographic__elevation :: "real list"
  other_fields :: 'x

subsection \<open>Code Block 5 of the hillslope notebooks: the analytical profile\<close>

text \<open>
  \<^verbatim>\<open>divide_loc = (mg.number_of_node_rows * mg.dx - mg.dx) / 2\<close>
  \<^verbatim>\<open>half_width = (mg.number_of_node_rows * mg.dx - mg.dx) / 2\<close>
  \<^verbatim>\<open>zs = (uplift_rate / (2 * D)) * (np.power(half_width, 2) - np.power(ys - divide_loc, 2))\<close>
\<close>

definition divide_loc :: "grid \<Rightarrow> real" where
  "divide_loc g = (real (number_of_node_rows g) * dx g - dx g) / 2"

definition half_width :: "grid \<Rightarrow> real" where
  "half_width g = (real (number_of_node_rows g) * dx g - dx g) / 2"

text \<open>One entry of \<open>zs\<close>, at the entry \<open>y\<close> of \<open>ys\<close>.\<close>

definition zs_at :: "grid \<Rightarrow> real \<Rightarrow> real \<Rightarrow> real \<Rightarrow> error + real" where
  "zs_at g uplift_rate D y =
     (case truediv uplift_rate (2 * D) of
        Inl e \<Rightarrow> Inl e
      | Inr c \<Rightarrow> Inr (c * ((half_width g)\<^sup>2 - (y - divide_loc g)\<^sup>2)))"

definition zs :: "grid \<Rightarrow> real \<Rightarrow> real \<Rightarrow> real list \<Rightarrow> error + real list" where
  "zs g uplift_rate D ys =
     (case truediv uplift_rate (2 * D) of
        Inl e \<Rightarrow> Inl e
      | Inr c \<Rightarrow> Inr (map (\<lambda>y. c * ((half_width g)\<^sup>2 - (y - divide_loc g)\<^sup>2)) ys))"

text \<open>
  The closed form as the specification words it: \<open>z(y) = (U/2D) (L\<^sup>2/4 - (y - L/2)\<^sup>2)\<close>,
  with \<open>L\<close> the domain length.
\<close>

definition spec_domain_length :: "grid \<Rightarrow> real" where
  "spec_domain_length g = real (number_of_node_rows g) * dx g - dx g"

definition spec_profile :: "real \<Rightarrow> real \<Rightarrow> real \<Rightarrow> real \<Rightarrow> real" where
  "spec_profile U D L y = (U / (2 * D)) * (L\<^sup>2 / 4 - (y - L / 2)\<^sup>2)"

subsection \<open>In-place addition at an index array\<close>

text \<open>
  numpy's \<^verbatim>\<open>z[idx] += v\<close> reads \<open>z\<close> at the indices, adds, and writes the sums
  back at the same indices; every right-hand side is read from the array as it was
  before the statement. \<open>v i\<close> is the addend that goes with node \<open>i\<close>. The indices are
  the grid's core nodes and the array has one entry per node, so no index is out of
  range.
\<close>

definition iadd_at :: "nat list \<Rightarrow> (nat \<Rightarrow> real) \<Rightarrow> real list \<Rightarrow> real list" where
  "iadd_at idx v z = fold (\<lambda>i acc. acc[i := z ! i + v i]) idx z"

subsection \<open>Notebook state\<close>

text \<open>
  What a notebook's loop can write: the field store at the grid, the elapsed-time
  variable (\<open>time_counter\<close> in the hillslope notebooks, \<open>total_time\<close> in the channel
  notebook) and what it shows (printed numbers, figures drawn from a time and an
  elevation array).
\<close>

datatype event = Printed real | Figure real "real list"

record 'x notebook_state =
  at_node :: "'x fields"
  total_time :: real
  shown :: "event list"

subsection \<open>Hillslope notebooks (linear and nonlinear diffusion)\<close>

text \<open>
  Code Block 4:
  \<^verbatim>\<open>dt = 0.5 * mg.dx * mg.dx / D\<close>
  \<^verbatim>\<open>nt = int(runtime // dt)\<close>
  \<^verbatim>\<open>time_counter = 0\<close>
  \<^verbatim>\<open>uplift_per_step = uplift_rate * dt\<close>
  \<open>stable_dt\<close> is the first line: a float64, since \<open>mg.dx\<close> is one. The block's result
  is \<open>(dt, nt, time_counter, uplift_per_step)\<close>, or the error that \<^verbatim>\<open>int\<close> raises.
\<close>

definition stable_dt :: "grid \<Rightarrow> real \<Rightarrow> float64" where
  "stable_dt g D = np_divide (0.5 * dx g * dx g) D"

definition code_block4 ::
  "(real \<Rightarrow> real \<Rightarrow> int) \<Rightarrow> grid \<Rightarrow> real \<Rightarrow> real \<Rightarrow> real \<Rightarrow>
   error + (float64 \<times> int \<times> real \<times> float64)" where
  "code_block4 floor_divide g D uplift_rate runtime =
     (let dt = stable_dt g D
      in case int_floor_divide floor_divide runtime dt of
           Inl e \<Rightarrow> Inl e
         | Inr nt \<Rightarrow> Inr (dt, nt, 0, np_multiply uplift_rate dt))"

text \<open>
  Code Block 7, one pass of the body at loop index \<open>i\<close>:
  \<^verbatim>\<open>mg["node"]["topographic__elevation"][mg.core_nodes] += uplift_per_step\<close>
  \<^verbatim>\<open>lin_diffuse.run_one_step(dt)\<close> (\<open>nonlin_diffuse\<close> in the nonlinear notebook)
  \<^verbatim>\<open>time_counter += dt\<close>
  \<^verbatim>\<open>if i == int(nt // 2):\<close> figures of the elevation, titled with the time.
  \<open>run_one_step\<close> is the diffuser's step and \<open>figures\<close> what the plotting block shows
  from the time and the elevation array.
\<close>

definition hillslope_uplift :: "grid \<Rightarrow> real \<Rightarrow> real list \<Rightarrow> real list" where
  "hillslope_uplift g uplift_per_step z = iadd_at (core_nodes g) (\<lambda>_. uplift_per_step) z"

definition hillslope_body ::
  "grid \<Rightarrow> (real \<Rightarrow> 'x fields \<Rightarrow> 'x fields) \<Rightarrow> (real \<Rightarrow> real list \<Rightarrow> event list) \<Rightarrow>
   real \<Rightarrow> int \<Rightarrow> real \<Rightarrow> nat \<Rightarrow> 'x notebook_state \<Rightarrow> 'x notebook_state" where
  "hillslope_body g run_one_step figures dt nt uplift_per_step i s =
     (let s1 = s\<lparr>at_node := (at_node s)\<lparr>topographic__elevation :=
                  hillslope_uplift g uplift_per_step
                    (topographic__elevation (at_node s))\<rparr>\<rparr>;
          s2 = s1\<lparr>at_node := run_one_step dt (at_node s1)\<rparr>;
          s3 = s2\<lparr>total_time := total_time s2 + dt\<rparr>
      in if int i = nt div 2
         then s3\<lparr>shown := shown s3 @
                figures (total_time s3) (topographic__elevation (at_node s3))\<rparr>
         else s3)"

text \<open>\<^verbatim>\<open>for i in range(nt):\<close> an \<open>nt\<close> below 1 gives no pass.\<close>

definition hillslope_loop ::
  "grid \<Rightarrow> (real \<Rightarrow> 'x fields \<Rightarrow> 'x fields) \<Rightarrow> (real \<Rightarrow> real list \<Rightarrow> event list) \<Rightarrow>
   real \<Rightarrow> int \<Rightarrow> real \<Rightarrow> 'x notebook_state \<Rightarrow> 'x notebook_state" where
  "hillslope_loop g run_one_step figures dt nt uplift_per_step s =
     fold (hillslope_body g run_one_step figures dt nt uplift_per_step) [0..<nat nt] s"

text \<open>
  Code Block 7 on the values that Code Block 4 left. An \<open>nt\<close> below 1 gives no pass,
  whatever \<open>dt\<close> is. Code Block 4 leaves a positive \<open>nt\<close> only together with a finite
  \<open>dt\<close> and a finite \<open>uplift_per_step\<close>, so the last case does not arise from it.
\<close>

definition code_block7 ::
  "grid \<Rightarrow> (real \<Rightarrow> 'x fields \<Rightarrow> 'x fields) \<Rightarrow> (real \<Rightarrow> real list \<Rightarrow> event list) \<Rightarrow>
   float64 \<Rightarrow> int \<Rightarrow> float64 \<Rightarrow> 'x notebook_state \<Rightarrow> 'x notebook_state" where
  "code_block7 g run_one_step figures dt nt uplift_per_step s =
     (if nt \<le> 0 then s
      else case (dt, uplift_per_step) of
             (Finite h, Finite u) \<Rightarrow> hillslope_loop g run_one_step figures h nt u s
           | _ \<Rightarrow> s)"

text \<open>
  The notebook from top to bottom, on the field store \<open>f0\<close> that Code Block 2 made:
  Code Block 3 builds the diffuser on the grid with the diffusivity (\<open>diffuser g D\<close> is
  its step), Code Block 4 sets the time parameters, Code Block 5 computes the
  analytical profile \<open>zs\<close>, Code Block 6 only draws, Code Block 7 is the loop. A raised
  error halts the notebook: the result is then the error together with the field
  store as it stands.
\<close>

definition hillslope_run ::
  "(real \<Rightarrow> real \<Rightarrow> int) \<Rightarrow> grid \<Rightarrow> (grid \<Rightarrow> real \<Rightarrow> real \<Rightarrow> 'x fields \<Rightarrow> 'x fields) \<Rightarrow>
   (real \<Rightarrow> real list \<Rightarrow> event list) \<Rightarrow> real \<Rightarrow> real \<Rightarrow> real \<Rightarrow> real list \<Rightarrow> 'x fields \<Rightarrow>
   (error \<times> 'x fields) + 'x notebook_state" where
  "hillslope_run floor_divide g diffuser figures D uplift_rate runtime ys f0 =
     (let run_one_step = diffuser g D
      in case code_block4 floor_divide g D uplift_rate runtime of
           Inl e \<Rightarrow> Inl (e, f0)
         | Inr (dt, nt, time_counter, uplift_per_step) \<Rightarrow>
             (case zs g uplift_rate D ys of
                Inl e \<Rightarrow> Inl (e, f0)
              | Inr analytical \<Rightarrow>
                  Inr (code_block7 g run_one_step figures dt nt uplift_per_step
                         \<lparr>at_node = f0, total_time = time_counter, shown = []\<rparr>)))"

subsection \<open>Channel notebook\<close>

text \<open>
  Calls into the libraries whose outcome the notebook does not fix are relations
  between what goes in and what comes out: the random generator, the grid's boundary
  handling and the steps of the process components. \<open>single_outcome\<close> says of such a
  call that the same input gives the same outcome; \<open>seed_fixes_state\<close> says of the
  generator's seeding that the state it leaves depends on the seed alone.
\<close>

definition single_outcome :: "('a \<Rightarrow> 'b \<Rightarrow> bool) \<Rightarrow> bool" where
  "single_outcome call = (\<forall>x a b. call x a \<longrightarrow> call x b \<longrightarrow> a = b)"

definition seed_fixes_state :: "(nat \<Rightarrow> 'r \<Rightarrow> 'r \<Rightarrow> bool) \<Rightarrow> bool" where
  "seed_fixes_state random_seed =
     (\<forall>n r r' a b. random_seed n r a \<longrightarrow> random_seed n r' b \<longrightarrow> a = b)"

text \<open>
  Code Block 3:
  \<^verbatim>\<open>np.random.seed(56)\<close>
  \<^verbatim>\<open>mg1_noise = np.random.rand(mg1.number_of_nodes) / 1000.0\<close>
  \<^verbatim>\<open>z1 = mg1.add_zeros("topographic__elevation", at="node")\<close>
  \<^verbatim>\<open>z1 += mg1_noise\<close>
  \<^verbatim>\<open>mg1.set_watershed_boundary_condition("topographic__elevation")\<close>
  \<open>random_seed n r r1\<close>: seeding with \<open>n\<close> takes the generator from state \<open>r\<close> to \<open>r1\<close>;
  \<open>random_rand k r (u, r2)\<close>: drawing \<open>k\<close> numbers in state \<open>r\<close> gives \<open>u\<close> and leaves
  state \<open>r2\<close>. \<open>r0\<close> is the state the generator is in when the block starts. The block
  leaves the grid with its boundary classification, the elevation array and the
  generator's state.
\<close>

inductive channels_block3 ::
  "(nat \<Rightarrow> 'r \<Rightarrow> 'r \<Rightarrow> bool) \<Rightarrow> (nat \<Rightarrow> 'r \<Rightarrow> real list \<times> 'r \<Rightarrow> bool) \<Rightarrow>
   (grid \<Rightarrow> real list \<Rightarrow> grid \<Rightarrow> bool) \<Rightarrow> grid \<Rightarrow> 'r \<Rightarrow> (grid \<times> real list) \<times> 'r \<Rightarrow> bool"
  for random_seed random_rand set_watershed_boundary_condition mg1 r0 where
  block3:
    "\<lbrakk>random_seed 56 r0 r1;
      random_rand (number_of_nodes mg1) r1 (u, r2);
      mg1_noise = map (\<lambda>x. x / 1000) u;
      z1 = map2 (+) (replicate (number_of_nodes mg1) 0) mg1_noise;
      set_watershed_boundary_condition mg1 z1 g\<rbrakk>
     \<Longrightarrow> channels_block3 random_seed random_rand set_watershed_boundary_condition mg1 r0
           ((g, z1), r2)"

text \<open>
  Code Block 7, one pass of the body:
  \<^verbatim>\<open>z1[mg1.core_nodes] += uplift_rate[mg1.core_nodes] * dt\<close>
  \<^verbatim>\<open>ld.run_one_step(dt)\<close>
  \<^verbatim>\<open>frr.run_one_step()\<close>
  \<^verbatim>\<open>spr.run_one_step(dt)\<close>
  \<^verbatim>\<open>total_time += dt\<close>
  \<^verbatim>\<open>print(total_time)\<close>
\<close>

definition channels_uplift :: "grid \<Rightarrow> real list \<Rightarrow> real \<Rightarrow> real list \<Rightarrow> real list" where
  "channels_uplift g uplift_rate dt z =
     iadd_at (core_nodes g) (\<lambda>i. uplift_rate ! i * dt) z"

definition channels_body ::
  "grid \<Rightarrow> (real \<Rightarrow> 'x fields \<Rightarrow> 'x fields) \<Rightarrow> ('x fields \<Rightarrow> 'x fields) \<Rightarrow>
   (real \<Rightarrow> 'x fields \<Rightarrow> 'x fields) \<Rightarrow> real list \<Rightarrow> real \<Rightarrow>
   'x notebook_state \<Rightarrow> 'x notebook_state" where
  "channels_body g ld frr spr uplift_rate dt s =
     (let s1 = s\<lparr>at_node := (at_node s)\<lparr>topographic__elevation :=
                  channels_uplift g uplift_rate dt
                    (topographic__elevation (at_node s))\<rparr>\<rparr>;
          s2 = s1\<lparr>at_node := ld dt (at_node s1)\<rparr>;
          s3 = s2\<lparr>at_node := frr (at_node s2)\<rparr>;
          s4 = s3\<lparr>at_node := spr dt (at_node s3)\<rparr>;
          s5 = s4\<lparr>total_time := total_time s4 + dt\<rparr>
      in s5\<lparr>shown := shown s5 @ [Printed (total_time s5)]\<rparr>)"

text \<open>\<^verbatim>\<open>for ti in t:\<close> one pass per entry of \<open>t\<close>; the body does not read \<open>ti\<close>.\<close>

definition channels_loop ::
  "grid \<Rightarrow> (real \<Rightarrow> 'x fields \<Rightarrow> 'x fields) \<Rightarrow> ('x fields \<Rightarrow> 'x fields) \<Rightarrow>
   (real \<Rightarrow> 'x fields \<Rightarrow> 'x fields) \<Rightarrow> real list \<Rightarrow> real \<Rightarrow> real list \<Rightarrow>
   'x notebook_state \<Rightarrow> 'x notebook_state" where
  "channels_loop g ld frr spr uplift_rate dt t s =
     fold (\<lambda>ti. channels_body g ld frr spr uplift_rate dt) t s"

text \<open>
  The same body and loop with the components as relations: one pass, and one pass per
  entry of \<open>t\<close>.
\<close>

inductive channels_pass ::
  "grid \<Rightarrow> (real \<Rightarrow> 'x fields \<Rightarrow> 'x fields \<Rightarrow> bool) \<Rightarrow> ('x fields \<Rightarrow> 'x fields \<Rightarrow> bool) \<Rightarrow>
   (real \<Rightarrow> 'x fields \<Rightarrow> 'x fields \<Rightarrow> bool) \<Rightarrow> real list \<Rightarrow> real \<Rightarrow>
   'x notebook_state \<Rightarrow> 'x notebook_state \<Rightarrow> bool"
  for g ld frr spr uplift_rate dt where
  pass:
    "\<lbrakk>ld dt ((at_node s)\<lparr>topographic__elevation :=
               channels_uplift g uplift_rate dt (topographic__elevation (at_node s))\<rparr>) f1;
      frr f1 f2;
      spr dt f2 f3\<rbrakk>
     \<Longrightarrow> channels_pass g ld frr spr uplift_rate dt s
           \<lparr>at_node = f3, total_time = total_time s + dt,
            shown = shown s @ [Printed (total_time s + dt)]\<rparr>"

inductive channels_passes ::
  "grid \<Rightarrow> (real \<Rightarrow> 'x fields \<Rightarrow> 'x fields \<Rightarrow> bool) \<Rightarrow> ('x fields \<Rightarrow> 'x fields \<Rightarrow> bool) \<Rightarrow>
   (real \<Rightarrow> 'x fields \<Rightarrow> 'x fields \<Rightarrow> bool) \<Rightarrow> real list \<Rightarrow> real \<Rightarrow> real list \<Rightarrow>
   'x notebook_state \<Rightarrow> 'x notebook_state \<Rightarrow> bool"
  for g ld frr spr uplift_rate dt where
  finished: "channels_passes g ld frr spr uplift_rate dt [] s s"
| another:
    "\<lbrakk>channels_pass g ld frr spr uplift_rate dt s s1;
      channels_passes g ld frr spr uplift_rate dt t s1 s2\<rbrakk>
     \<Longrightarrow> channels_passes g ld frr spr uplift_rate dt (ti # t) s s2"

text \<open>
  Code Blocks 3 to 7 in sequence. The components are built on the grid that Code
  Block 3 leaves (\<open>ld\<close>, \<open>frr\<close>, \<open>spr\<close> take it as their first argument), Code Block 4
  sets \<open>total_time = 0\<close> and the array \<open>t\<close> of time steps, Code Block 6 sets
  \<^verbatim>\<open>uplift_rate = np.ones(mg1.number_of_nodes) * 0.0001\<close> (here \<open>U\<close> for the rate).
  The outcome is the notebook state after the loop and the generator's state.
\<close>

inductive channels_run ::
  "(nat \<Rightarrow> 'r \<Rightarrow> 'r \<Rightarrow> bool) \<Rightarrow> (nat \<Rightarrow> 'r \<Rightarrow> real list \<times> 'r \<Rightarrow> bool) \<Rightarrow>
   (grid \<Rightarrow> real list \<Rightarrow> grid \<Rightarrow> bool) \<Rightarrow>
   (grid \<Rightarrow> real \<Rightarrow> 'x fields \<Rightarrow> 'x fields \<Rightarrow> bool) \<Rightarrow> (grid \<Rightarrow> 'x fields \<Rightarrow> 'x fields \<Rightarrow> bool) \<Rightarrow>
   (grid \<Rightarrow> real \<Rightarrow> 'x fields \<Rightarrow> 'x fields \<Rightarrow> bool) \<Rightarrow>
   grid \<Rightarrow> 'x \<Rightarrow> real \<Rightarrow> real \<Rightarrow> real list \<Rightarrow> 'r \<Rightarrow> 'x notebook_state \<times> 'r \<Rightarrow> bool"
  for random_seed random_rand set_watershed_boundary_condition ld frr spr mg1 x0 U dt t r0 where
  run:
    "\<lbrakk>channels_block3 random_seed random_rand set_watershed_boundary_condition mg1 r0
        ((g, z1), r);
      uplift_rate = map (\<lambda>one. one * U) (replicate (number_of_nodes g) 1);
      channels_passes g (ld g) (frr g) (spr g) uplift_rate dt t
        \<lparr>at_node = \<lparr>topographic__elevation = z1, other_fields = x0\<rparr>,
         total_time = 0, shown = []\<rparr> s\<rbrakk>
     \<Longrightarrow> channels_run random_seed random_rand set_watershed_boundary_condition ld frr spr
           mg1 x0 U dt t r0 (s, r)"

subsection \<open>The iteration as the specification words it\<close>

text \<open>
  For each iteration: (a) add the uplift increment to every core node's elevation;
  (b) invoke the diffusion step with the timestep; (c) optionally invoke flow routing;
  (d) optionally invoke an erosion step; (e) advance the run clock by the timestep.
  The state is the field store and the clock; \<open>inc i\<close> is the increment of node \<open>i\<close>;
  \<open>spec_transport\<close> is (b) to (d).
\<close>

definition spec_uplift :: "grid \<Rightarrow> (nat \<Rightarrow> real) \<Rightarrow> real list \<Rightarrow> real list" where
  "spec_uplift g inc z =
     map (\<lambda>i. if i \<in> set (core_nodes g) then z ! i + inc i else z ! i) [0..<length z]"

definition spec_transport ::
  "(real \<Rightarrow> 'x fields \<Rightarrow> 'x fields) \<Rightarrow> ('x fields \<Rightarrow> 'x fields) option \<Rightarrow>
   (real \<Rightarrow> 'x fields \<Rightarrow> 'x fields) option \<Rightarrow> real \<Rightarrow> 'x fields \<Rightarrow> 'x fields" where
  "spec_transport diffuse route erode dt fa =
     (let fb = diffuse dt fa;
          fc = (case route of None \<Rightarrow> fb | Some r \<Rightarrow> r fb);
          fd = (case erode of None \<Rightarrow> fc | Some e \<Rightarrow> e dt fc)
      in fd)"

definition spec_iteration ::
  "grid \<Rightarrow> (nat \<Rightarrow> real) \<Rightarrow> (real \<Rightarrow> 'x fields \<Rightarrow> 'x fields) \<Rightarrow>
   ('x fields \<Rightarrow> 'x fields) option \<Rightarrow> (real \<Rightarrow> 'x fields \<Rightarrow> 'x fields) option \<Rightarrow>
   real \<Rightarrow> 'x fields \<times> real \<Rightarrow> 'x fields \<times> real" where
  "spec_iteration g inc diffuse route erode dt st =
     (let fa = (fst st)\<lparr>topographic__elevation :=
                  spec_uplift g inc (topographic__elevation (fst st))\<rparr>
      in (spec_transport diffuse route erode dt fa, snd st + dt))"

text \<open>The part of a notebook state that the specification's iteration is about.\<close>

definition field_and_clock :: "'x notebook_state \<Rightarrow> 'x fields \<times> real" where
  "field_and_clock s = (at_node s, total_time s)"

text \<open>The sum of the elevation over the core nodes.\<close>

definition core_sum :: "grid \<Rightarrow> real list \<Rightarrow> real" where
  "core_sum g z = sum_list (map (\<lambda>i. z ! i) (core_nodes g))"

subsection \<open>A small grid and stand-in components, for concrete runs\<close>

text \<open>
  Three rows of three nodes with spacing 5; the left and right edges are closed, the
  two remaining edge nodes are open, node 4 is the core node.
\<close>

definition small_grid :: grid where
  "small_grid = \<lparr>number_of_node_rows = 3, number_of_node_columns = 3, dx = 5,
     status_at_node = [Closed, FixedValue, Closed, Closed, Core, Closed,
                       Closed, FixedValue, Closed]\<rparr>"

text \<open>
  A floor division that takes the floor of the exact quotient, as the host's does
  away from quotients that rounding moves across an integer.
\<close>

definition exact_floor_divide :: "real \<Rightarrow> real \<Rightarrow> int" where
  "exact_floor_divide a b = \<lfloor>a / b\<rfloor>"

text \<open>A diffuser, built on a grid with a diffusivity, that leaves the field store as it is.\<close>

definition idle_diffuser :: "grid \<Rightarrow> real \<Rightarrow> real \<Rightarrow> unit fields \<Rightarrow> unit fields" where
  "idle_diffuser g D dt f = f"

text \<open>A component that leaves the field store as it is.\<close>

definition idle_step :: "real \<Rightarrow> unit fields \<Rightarrow> unit fields" where
  "idle_step dt f = f"

text \<open>
  A component that exports through the open boundary half of what stands on each core
  node above zero. On \<open>small_grid\<close>, whose core node lies between two open boundary
  nodes, this is what an explicit linear-diffusion step with \<open>D dt / dx\<^sup>2 = 1/4\<close> does
  to a positive core elevation when the open boundary is held at zero.
\<close>

definition drain_step :: "grid \<Rightarrow> real \<Rightarrow> unit fields \<Rightarrow> unit fields" where
  "drain_step g dt f =
     f\<lparr>topographic__elevation :=
         map (\<lambda>i. if i \<in> set (core_nodes g) \<and> 0 < topographic__elevation f ! i
                  then topographic__elevation f ! i / 2
                  else topographic__elevation f ! i)
           [0..<length (topographic__elevation f)]\<rparr>"

text \<open>
  A transport step that adds no mass anywhere and takes mass from core nodes only: it
  keeps the array's length, leaves every boundary entry as it is and raises no entry.
  What a core node loses has left the domain through the open boundary.
\<close>

definition exports_only :: "grid \<Rightarrow> (real \<Rightarrow> 'x fields \<Rightarrow> 'x fields) \<Rightarrow> bool" where
  "exports_only g step =
     (\<forall>h f. length (topographic__elevation (step h f)) = length (topographic__elevation f)
        \<and> (\<forall>i < length (topographic__elevation f).
              topographic__elevation (step h f) ! i \<le> topographic__elevation f ! i
              \<and> (i \<notin> set (core_nodes g) \<longrightarrow>
                   topographic__elevation (step h f) ! i = topographic__elevation f ! i)))"

text \<open>
  A generator whose state is a counter: seeding sets the counter to the seed, drawing
  reads the numbers off the counter and advances it. A boundary handler that leaves
  the grid as it is.
\<close>

definition sample_seed :: "nat \<Rightarrow> nat \<Rightarrow> nat \<Rightarrow> bool" where
  "sample_seed n r r' = (r' = n)"

definition sample_rand :: "nat \<Rightarrow> nat \<Rightarrow> real list \<times> nat \<Rightarrow> bool" where
  "sample_rand k r out = (out = (map (\<lambda>j. real ((r + j) mod 10) / 10) [0..<k], r + k))"

definition keep_boundaries :: "grid \<Rightarrow> real list \<Rightarrow> grid \<Rightarrow> bool" where
  "keep_boundaries g z g' = (g' = g)"

text \<open>A seeding that does not reset the generator: it moves the counter on by the seed.\<close>

definition drifting_seed :: "nat \<Rightarrow> nat \<Rightarrow> nat \<Rightarrow> bool" where
  "drifting_seed n r r' = (r' = r + n)"

text \<open>A field store with 10 on the core node of \<open>small_grid\<close> and 0 elsewhere.\<close>

definition heap_state :: "unit notebook_state" where
  "heap_state = \<lparr>at_node = \<lparr>topographic__elevation = [0, 0, 0, 0, 10, 0, 0, 0, 0],
                                other_fields = ()\<rparr>,
                  total_time = 0, shown = []\<rparr>"

text \<open>The field store of \<open>small_grid\<close> at elevation zero.\<close>

definition flat_state :: "unit notebook_state" where
  "flat_state = \<lparr>at_node = \<lparr>topographic__elevation = [0, 0, 0, 0, 0, 0, 0, 0, 0],
                                other_fields = ()\<rparr>,
                  total_time = 0, shown = []\<rparr>"

section \<open>Theorems\<close>

subsection \<open>Index updates and the grid's node lists\<close>

lemma fold_update_length:
  "length (fold (\<lambda>i acc. acc[i := f i]) idx acc) = length acc"
  by (induction idx arbitrary: acc) simp_all

lemma fold_update_nth:
  "fold (\<lambda>i acc. acc[i := f i]) idx acc ! j =
     (if j \<in> set idx \<and> j < length acc then f j else acc ! j)"
proof (induction idx arbitrary: acc)
  case Nil
  show ?case by simp
next
  case (Cons a idx)
  show ?case
    using Cons.IH [of "acc[a := f a]"] by (cases "j = a") (auto simp: list_update_beyond)
qed

lemma iadd_at_length: "length (iadd_at idx v z) = length z"
  by (simp add: iadd_at_def fold_update_length)

lemma iadd_at_nth:
  "iadd_at idx v z ! j = (if j \<in> set idx \<and> j < length z then z ! j + v j else z ! j)"
  unfolding iadd_at_def by (rule fold_update_nth)

lemma iadd_at_spec_uplift: "iadd_at (core_nodes g) inc z = spec_uplift g inc z"
  by (rule nth_equalityI) (simp_all add: iadd_at_length iadd_at_nth spec_uplift_def)

lemma core_nodes_less: "i \<in> set (core_nodes g) \<Longrightarrow> i < number_of_nodes g"
  by (simp add: core_nodes_def)

lemma core_boundary_disjoint:
  "i \<in> set (boundary_nodes g) \<Longrightarrow> i \<notin> set (core_nodes g)"
  by (simp add: core_nodes_def boundary_nodes_def)

lemma hillslope_body_field_and_clock:
  "field_and_clock (hillslope_body g run_one_step figures dt nt ups i s) =
     spec_iteration g (\<lambda>_. ups) run_one_step None None dt (field_and_clock s)"
  by (simp add: hillslope_body_def spec_iteration_def spec_transport_def field_and_clock_def Let_def
      hillslope_uplift_def iadd_at_spec_uplift)

lemma channels_body_field_and_clock:
  "field_and_clock (channels_body g ld frr spr uplift_rate dt s) =
     spec_iteration g (\<lambda>i. uplift_rate ! i * dt) ld (Some frr) (Some spr) dt (field_and_clock s)"
  by (simp add: channels_body_def spec_iteration_def spec_transport_def field_and_clock_def Let_def
      channels_uplift_def iadd_at_spec_uplift)

lemma fold_projection:
  assumes "\<And>x s. p (step x s) = F (p s)"
  shows "p (fold step xs s) = (F ^^ length xs) (p s)"
proof (induction xs arbitrary: s)
  case Nil
  show ?case by simp
next
  case (Cons x xs)
  have "p (fold step (x # xs) s) = (F ^^ length xs) (F (p s))"
    by (simp add: Cons.IH assms)
  then show ?case by (simp add: funpow_swap1)
qed

lemma hillslope_loop_field_and_clock:
  "field_and_clock (hillslope_loop g run_one_step figures dt nt ups s) =
     (spec_iteration g (\<lambda>_. ups) run_one_step None None dt ^^ nat nt) (field_and_clock s)"
  unfolding hillslope_loop_def
  using fold_projection [where p = field_and_clock
      and step = "hillslope_body g run_one_step figures dt nt ups"
      and F = "spec_iteration g (\<lambda>_. ups) run_one_step None None dt"
      and xs = "[0..<nat nt]" and s = s]
  by (simp add: hillslope_body_field_and_clock)

lemma channels_loop_field_and_clock:
  "field_and_clock (channels_loop g ld frr spr uplift_rate dt t s) =
     (spec_iteration g (\<lambda>i. uplift_rate ! i * dt) ld (Some frr) (Some spr) dt ^^ length t)
       (field_and_clock s)"
  unfolding channels_loop_def
  using fold_projection [where p = field_and_clock
      and step = "\<lambda>ti. channels_body g ld frr spr uplift_rate dt"
      and F = "spec_iteration g (\<lambda>i. uplift_rate ! i * dt) ld (Some frr) (Some spr) dt"
      and xs = t and s = s]
  by (simp add: channels_body_field_and_clock)

lemma spec_iteration_clock:
  "snd ((spec_iteration g inc diffuse route erode dt ^^ k) st) = snd st + real k * dt"
  by (induction k) (simp_all add: spec_iteration_def spec_transport_def Let_def algebra_simps)

lemma spec_iteration_idle_elevation:
  assumes d: "\<And>h f. topographic__elevation (diffuse h f) = topographic__elevation f"
    and r: "\<And>c f. route = Some c \<Longrightarrow> topographic__elevation (c f) = topographic__elevation f"
    and e: "\<And>c h f. erode = Some c \<Longrightarrow> topographic__elevation (c h f) = topographic__elevation f"
  shows "topographic__elevation (fst ((spec_iteration g inc diffuse route erode dt ^^ k) st)) =
     map (\<lambda>i. if i \<in> set (core_nodes g)
              then topographic__elevation (fst st) ! i + real k * inc i
              else topographic__elevation (fst st) ! i)
       [0..<length (topographic__elevation (fst st))]"
proof (induction k)
  case 0
  show ?case by (rule nth_equalityI) simp_all
next
  case (Suc k)
  have step: "topographic__elevation (fst (spec_iteration g inc diffuse route erode dt x)) =
      spec_uplift g inc (topographic__elevation (fst x))" for x
    by (cases route; cases erode) (simp_all add: spec_iteration_def spec_transport_def Let_def d r e)
  show ?case
    by (rule nth_equalityI) (simp_all add: step Suc.IH spec_uplift_def algebra_simps)
qed

lemma channels_loop_funpow:
  "channels_loop g ld frr spr uplift_rate dt t s =
     (channels_body g ld frr spr uplift_rate dt ^^ length t) s"
  unfolding channels_loop_def
  by (induction t arbitrary: s) (simp_all add: funpow_swap1)

lemma total_time_field_and_clock: "total_time x = snd (field_and_clock x)"
  by (simp add: field_and_clock_def)

lemma hillslope_loop_clock:
  "total_time (hillslope_loop g run_one_step figures dt nt ups s) =
     total_time s + real (nat nt) * dt"
  by (simp only: total_time_field_and_clock hillslope_loop_field_and_clock spec_iteration_clock)

lemma stable_dt_value: "D \<noteq> 0 \<Longrightarrow> stable_dt g D = Finite (1 / 2 * ((dx g)\<^sup>2 / D))"
  by (simp add: stable_dt_def np_divide_def power2_eq_square)

lemma code_block4_value:
  assumes "D \<noteq> 0" and "dx g \<noteq> 0"
  shows "code_block4 floor_divide g D U runtime =
     Inr (Finite (1 / 2 * ((dx g)\<^sup>2 / D)), floor_divide runtime (1 / 2 * ((dx g)\<^sup>2 / D)), 0,
          Finite (U * (1 / 2 * ((dx g)\<^sup>2 / D))))"
  using assms
  by (simp add: code_block4_def stable_dt_value int_floor_divide_def np_multiply_def)

lemma hillslope_loop_no_pass:
  "nt \<le> 0 \<Longrightarrow> hillslope_loop g run_one_step figures dt nt uplift_per_step s = s"
  by (simp add: hillslope_loop_def)

lemma code_block7_finite:
  "code_block7 g run_one_step figures (Finite h) nt (Finite u) s =
     hillslope_loop g run_one_step figures h nt u s"
  by (simp add: code_block7_def hillslope_loop_no_pass)

lemma code_block4_positive_nt_finite:
  assumes "code_block4 floor_divide g D U runtime = Inr (dt, nt, tc, ups)" and "0 < nt"
  shows "\<exists>h u. dt = Finite h \<and> ups = Finite u"
proof -
  from assms(1) have nt: "int_floor_divide floor_divide runtime dt = Inr nt"
    and ups: "ups = np_multiply U dt"
    by (auto simp: code_block4_def Let_def split: sum.splits)
  from nt assms(2) obtain h where "dt = Finite h"
    by (cases dt) (auto simp: int_floor_divide_def split: if_splits)
  then show ?thesis
    using ups by (simp add: np_multiply_def)
qed

subsection \<open>The channel notebook as a relation\<close>

lemma single_outcomeD: "single_outcome call \<Longrightarrow> call x a \<Longrightarrow> call x b \<Longrightarrow> a = b"
  unfolding single_outcome_def by blast

lemma channels_pass_deterministic:
  assumes "\<And>h. single_outcome (ld h)" and "single_outcome frr" and "\<And>h. single_outcome (spr h)"
    and "channels_pass g ld frr spr uplift_rate dt s a"
    and "channels_pass g ld frr spr uplift_rate dt s b"
  shows "a = b"
  using assms(4,5)
proof (induction rule: channels_pass.induct)
  case (pass s f1 f2 f3)
  from pass.prems show ?case
  proof (cases rule: channels_pass.cases)
    case (pass f1' f2' f3')
    have "f1' = f1" using assms(1) pass(2) \<open>ld dt _ f1\<close> by (blast dest: single_outcomeD)
    then have "f2' = f2" using assms(2) pass(3) \<open>frr f1 f2\<close> by (blast dest: single_outcomeD)
    then have "f3' = f3" using assms(3) pass(4) \<open>spr dt f2 f3\<close> by (blast dest: single_outcomeD)
    then show ?thesis using pass(1) by simp
  qed
qed

lemma channels_passes_deterministic:
  assumes "\<And>h. single_outcome (ld h)" and "single_outcome frr" and "\<And>h. single_outcome (spr h)"
    and "channels_passes g ld frr spr uplift_rate dt t s a"
    and "channels_passes g ld frr spr uplift_rate dt t s b"
  shows "a = b"
  using assms(4,5)
proof (induction arbitrary: b rule: channels_passes.induct)
  case (finished s)
  then show ?case by (auto elim: channels_passes.cases)
next
  case (another s s1 t s2 ti)
  from another.prems obtain s1' where p: "channels_pass g ld frr spr uplift_rate dt s s1'"
    and rest: "channels_passes g ld frr spr uplift_rate dt t s1' b"
    by (auto elim: channels_passes.cases)
  have "s1' = s1"
    using channels_pass_deterministic [OF assms(1-3) another.hyps(1) p] by simp
  with rest another.IH show ?case by simp
qed

lemma channels_block3_deterministic:
  assumes seed: "seed_fixes_state random_seed"
    and rand: "\<And>k. single_outcome (random_rand k)"
    and swbc: "\<And>g. single_outcome (set_watershed_boundary_condition g)"
    and a: "channels_block3 random_seed random_rand set_watershed_boundary_condition mg1 r0 a"
    and b: "channels_block3 random_seed random_rand set_watershed_boundary_condition mg1 r0' b"
  shows "a = b"
  using a
proof (cases rule: channels_block3.cases)
  case (block3 r1 u r2 mg1_noise z1 g)
  note first = block3
  from b show ?thesis
  proof (cases rule: channels_block3.cases)
    case (block3 r1' u' r2' mg1_noise' z1' g')
    have r1: "r1' = r1"
      using seed first(2) block3(2) unfolding seed_fixes_state_def by blast
    have ur: "(u', r2') = (u, r2)"
      using single_outcomeD [OF rand first(3)] block3(3) r1 by blast
    then have z: "z1' = z1" using first(4,5) block3(4,5) by simp
    have "g' = g"
      using single_outcomeD [OF swbc first(6)] block3(6) z by blast
    then show ?thesis using first(1) block3(1) ur z by simp
  qed
qed

lemma channels_pass_graph:
  "channels_pass g (\<lambda>h f f'. f' = ld h f) (\<lambda>f f'. f' = frr f) (\<lambda>h f f'. f' = spr h f)
     uplift_rate dt s (channels_body g ld frr spr uplift_rate dt s)"
proof -
  let ?f0 = "(at_node s)\<lparr>topographic__elevation :=
               channels_uplift g uplift_rate dt (topographic__elevation (at_node s))\<rparr>"
  let ?f1 = "ld dt ?f0"
  let ?f2 = "frr ?f1"
  let ?f3 = "spr dt ?f2"
  have "channels_pass g (\<lambda>h f f'. f' = ld h f) (\<lambda>f f'. f' = frr f) (\<lambda>h f f'. f' = spr h f)
          uplift_rate dt s
          \<lparr>at_node = ?f3, total_time = total_time s + dt,
           shown = shown s @ [Printed (total_time s + dt)]\<rparr>"
    by (rule channels_pass.intros [where ?f1.0 = ?f1 and ?f2.0 = ?f2]) simp_all
  moreover have "channels_body g ld frr spr uplift_rate dt s =
          \<lparr>at_node = ?f3, total_time = total_time s + dt,
           shown = shown s @ [Printed (total_time s + dt)]\<rparr>"
    by (cases s) (simp add: channels_body_def Let_def)
  ultimately show ?thesis by simp
qed

lemma channels_passes_graph:
  "channels_passes g (\<lambda>h f f'. f' = ld h f) (\<lambda>f f'. f' = frr f) (\<lambda>h f f'. f' = spr h f)
     uplift_rate dt t s (channels_loop g ld frr spr uplift_rate dt t s)"
proof (induction t arbitrary: s)
  case Nil
  show ?case by (simp add: channels_loop_def channels_passes.finished)
next
  case (Cons ti t)
  show ?case
    using channels_passes.another [OF channels_pass_graph Cons.IH]
    by (simp add: channels_loop_def)
qed

lemma sample_block3:
  "channels_block3 sample_seed sample_rand keep_boundaries mg1 r0
     ((mg1, map2 (+) (replicate (number_of_nodes mg1) 0)
              (map (\<lambda>x. x / 1000)
                 (map (\<lambda>j. real ((56 + j) mod 10) / 10) [0..<number_of_nodes mg1]))),
      56 + number_of_nodes mg1)"
  by (rule channels_block3.intros [where ?r1.0 = 56
        and u = "map (\<lambda>j. real ((56 + j) mod 10) / 10) [0..<number_of_nodes mg1]"])
     (simp_all add: sample_seed_def sample_rand_def keep_boundaries_def)

lemma channels_run_graph:
  assumes "channels_block3 random_seed random_rand set_watershed_boundary_condition mg1 r0
             ((g, z1), r)"
  shows "channels_run random_seed random_rand set_watershed_boundary_condition
           (\<lambda>g h f f'. f' = ld g h f) (\<lambda>g f f'. f' = frr g f) (\<lambda>g h f f'. f' = spr g h f)
           mg1 x0 U dt t r0
           (channels_loop g (ld g) (frr g) (spr g)
              (map (\<lambda>one. one * U) (replicate (number_of_nodes g) 1)) dt t
              \<lparr>at_node = \<lparr>topographic__elevation = z1, other_fields = x0\<rparr>,
               total_time = 0, shown = []\<rparr>, r)"
  by (rule channels_run.intros [OF assms refl]) (rule channels_passes_graph)

subsection \<open>The small grid\<close>

lemma small_grid_core: "core_nodes small_grid = [4]"
  by (simp add: core_nodes_def small_grid_def number_of_nodes_def upt_rec [of _ "numeral _"])

lemma small_grid_boundary: "boundary_nodes small_grid = [0, 1, 2, 3, 5, 6, 7, 8]"
  by (simp add: boundary_nodes_def small_grid_def number_of_nodes_def upt_rec [of _ "numeral _"])

lemma small_grid_nodes: "number_of_nodes small_grid = 9"
  by (simp add: small_grid_def number_of_nodes_def)

text \<open>
  The seeding matters: with a seeding that does not fix the generator's state, Code
  Block 3 started in two generator states leaves two different elevation arrays.
\<close>

lemma sample_rand_block3:
  assumes "random_seed 56 r0 r1"
  shows "channels_block3 random_seed sample_rand keep_boundaries mg1 r0
     ((mg1, map2 (+) (replicate (number_of_nodes mg1) 0)
              (map (\<lambda>x. x / 1000)
                 (map (\<lambda>j. real ((r1 + j) mod 10) / 10) [0..<number_of_nodes mg1]))),
      r1 + number_of_nodes mg1)"
  by (rule channels_block3.intros [where ?r1.0 = r1
        and u = "map (\<lambda>j. real ((r1 + j) mod 10) / 10) [0..<number_of_nodes mg1]"])
     (simp_all add: assms sample_rand_def keep_boundaries_def)

lemma unseeded_block3_differs:
  "\<exists>a b. channels_block3 drifting_seed sample_rand keep_boundaries small_grid 0 a
       \<and> channels_block3 drifting_seed sample_rand keep_boundaries small_grid 1 b
       \<and> snd (fst a) \<noteq> snd (fst b)"
proof -
  have s0: "drifting_seed 56 0 56" and s1: "drifting_seed 56 1 57"
    by (simp_all add: drifting_seed_def)
  let ?z = "\<lambda>r1 :: nat. map2 (+) (replicate (number_of_nodes small_grid) 0)
              (map (\<lambda>x. x / 1000)
                 (map (\<lambda>j. real ((r1 + j) mod 10) / 10) [0..<number_of_nodes small_grid]))"
  have "?z 56 ! 0 = 6 / 10 / 1000" and "?z 57 ! 0 = 7 / 10 / 1000"
    by (simp_all add: small_grid_nodes)
  then have "?z 56 ! 0 \<noteq> ?z 57 ! 0" by simp
  then have "?z 56 \<noteq> ?z 57" by metis
  then show ?thesis
    using sample_rand_block3 [where random_seed = drifting_seed and ?r0.0 = 0 and ?r1.0 = 56
        and ?mg1.0 = small_grid, OF s0]
      sample_rand_block3 [where random_seed = drifting_seed and ?r0.0 = 1 and ?r1.0 = 57
        and ?mg1.0 = small_grid, OF s1]
    by force
qed

lemma core_sum_spec_uplift:
  assumes "number_of_nodes g \<le> length z"
  shows "core_sum g (spec_uplift g inc z) = core_sum g z + sum_list (map inc (core_nodes g))"
proof -
  have eq: "map (\<lambda>i. spec_uplift g inc z ! i) (core_nodes g) =
        map (\<lambda>i. z ! i + inc i) (core_nodes g)"
  proof (rule map_cong [OF refl])
    fix i assume i: "i \<in> set (core_nodes g)"
    then have "i < length z" using core_nodes_less [OF i] assms by simp
    then show "spec_uplift g inc z ! i = z ! i + inc i"
      using i by (simp add: spec_uplift_def)
  qed
  have "core_sum g (spec_uplift g inc z) = sum_list (map (\<lambda>i. z ! i + inc i) (core_nodes g))"
    unfolding core_sum_def eq ..
  also have "\<dots> = core_sum g z + sum_list (map inc (core_nodes g))"
    by (simp add: core_sum_def sum_list_addf)
  finally show ?thesis .
qed

lemma drain_step_exports_only: "exports_only g (drain_step g)"
  by (simp add: exports_only_def drain_step_def)

lemma heap_one_pass:
  "topographic__elevation (at_node
     (hillslope_loop small_grid (drain_step small_grid) (\<lambda>tc z. []) 1250 1 (1 / 8) heap_state))
   = [0, 0, 0, 0, 81 / 16, 0, 0, 0, 0]"
  by (simp add: hillslope_loop_def hillslope_body_def hillslope_uplift_def iadd_at_def
      small_grid_core drain_step_def heap_state_def Let_def upt_rec [of _ "numeral _"])

lemma heap_two_passes:
  "topographic__elevation (at_node
     (hillslope_loop small_grid (drain_step small_grid) (\<lambda>tc z. []) 1250 2 (1 / 8) heap_state))
   = [0, 0, 0, 0, 83 / 32, 0, 0, 0, 0]"
  by (simp add: hillslope_loop_def hillslope_body_def hillslope_uplift_def iadd_at_def
      small_grid_core drain_step_def heap_state_def Let_def upt_rec [of _ "numeral _"])

subsection \<open>The claims\<close>

text \<open>
  C1. When the transport, routing and erosion steps leave the elevation as it is, \<open>k\<close>
  iterations of either loop raise every core node by \<open>k U dt\<close> above its initial
  elevation and leave every boundary node at its initial elevation. The elevation
  array has one entry per node; in the channel notebook the uplift array holds the
  same rate \<open>U\<close> at every node, in the hillslope notebooks the increment per step is
  \<open>U dt\<close>.
\<close>

theorem idle_transport_uplift_only:
  assumes diffuser: "\<And>h f. topographic__elevation (run_one_step h f) = topographic__elevation f"
    and ld: "\<And>h f. topographic__elevation (ld h f) = topographic__elevation f"
    and frr: "\<And>f. topographic__elevation (frr f) = topographic__elevation f"
    and spr: "\<And>h f. topographic__elevation (spr h f) = topographic__elevation f"
    and entries: "length (topographic__elevation (at_node s)) = number_of_nodes g"
    and uniform: "uplift_rate = replicate (number_of_nodes g) U"
    and iterations: "length t = k"
  shows "(i \<in> set (core_nodes g) \<longrightarrow>
            topographic__elevation (at_node
              (hillslope_loop g run_one_step figures dt (int k) (U * dt) s)) ! i
              = topographic__elevation (at_node s) ! i + real k * U * dt
          \<and> topographic__elevation (at_node
              (channels_loop g ld frr spr uplift_rate dt t s)) ! i
              = topographic__elevation (at_node s) ! i + real k * U * dt)
       \<and> (i \<in> set (boundary_nodes g) \<longrightarrow>
            topographic__elevation (at_node
              (hillslope_loop g run_one_step figures dt (int k) (U * dt) s)) ! i
              = topographic__elevation (at_node s) ! i
          \<and> topographic__elevation (at_node
              (channels_loop g ld frr spr uplift_rate dt t s)) ! i
              = topographic__elevation (at_node s) ! i)"
proof -
  let ?z = "topographic__elevation (at_node s)"
  have fc: "fst (field_and_clock x) = at_node x" for x :: "'a notebook_state"
    by (simp add: field_and_clock_def)
  have fc0: "fst (field_and_clock s) = at_node s"
    by (rule fc)
  have hs_loop: "at_node (hillslope_loop g run_one_step figures dt (int k) (U * dt) s) =
      fst ((spec_iteration g (\<lambda>_. U * dt) run_one_step None None dt ^^ k) (field_and_clock s))"
    by (simp only: fc [symmetric] hillslope_loop_field_and_clock nat_int)
  have ch_loop: "at_node (channels_loop g ld frr spr uplift_rate dt t s) =
      fst ((spec_iteration g (\<lambda>i. uplift_rate ! i * dt) ld (Some frr) (Some spr) dt ^^ k)
             (field_and_clock s))"
    by (simp only: fc [symmetric] channels_loop_field_and_clock iterations)
  have hs: "topographic__elevation (at_node
              (hillslope_loop g run_one_step figures dt (int k) (U * dt) s)) =
            map (\<lambda>i. if i \<in> set (core_nodes g) then ?z ! i + real k * (U * dt) else ?z ! i)
              [0..<length ?z]"
    unfolding hs_loop fc0 [symmetric]
    by (rule spec_iteration_idle_elevation) (simp_all add: diffuser)
  have ch: "topographic__elevation (at_node (channels_loop g ld frr spr uplift_rate dt t s)) =
            map (\<lambda>i. if i \<in> set (core_nodes g) then ?z ! i + real k * (uplift_rate ! i * dt)
                     else ?z ! i) [0..<length ?z]"
    unfolding ch_loop fc0 [symmetric]
    by (rule spec_iteration_idle_elevation) (auto simp: ld frr spr)
  show ?thesis
  proof (intro conjI impI)
    assume c: "i \<in> set (core_nodes g)"
    then have lt: "i < length ?z" using core_nodes_less entries by simp
    show "topographic__elevation (at_node
              (hillslope_loop g run_one_step figures dt (int k) (U * dt) s)) ! i
              = ?z ! i + real k * U * dt"
      using c lt by (simp add: hs)
    show "topographic__elevation (at_node (channels_loop g ld frr spr uplift_rate dt t s)) ! i
              = ?z ! i + real k * U * dt"
      unfolding ch using c lt entries by (simp add: uniform)
  next
    assume b: "i \<in> set (boundary_nodes g)"
    then have nc: "i \<notin> set (core_nodes g)" by (rule core_boundary_disjoint)
    from b have lt: "i < length ?z" using entries by (simp add: boundary_nodes_def)
    show "topographic__elevation (at_node
              (hillslope_loop g run_one_step figures dt (int k) (U * dt) s)) ! i = ?z ! i"
      using nc lt by (simp add: hs)
    show "topographic__elevation (at_node (channels_loop g ld frr spr uplift_rate dt t s)) ! i
              = ?z ! i"
      using nc lt by (simp add: ch)
  qed
qed

theorem idle_transport_uplift_only_witness:
  "(\<forall>h f. topographic__elevation (idle_step h f) = topographic__elevation f)
   \<and> (\<forall>f. topographic__elevation (idle_step 0 f) = topographic__elevation f)
   \<and> length (topographic__elevation (at_node heap_state)) = number_of_nodes small_grid
   \<and> replicate 9 (1 / 10000) = replicate (number_of_nodes small_grid) (1 / 10000 :: real)
   \<and> length [0, 1250 :: real] = 2
   \<and> 4 \<in> set (core_nodes small_grid)
   \<and> 1 \<in> set (boundary_nodes small_grid)
   \<and> topographic__elevation (at_node
         (hillslope_loop small_grid idle_step (\<lambda>tc z. []) 1250 (int 2) (1 / 10000 * 1250)
            heap_state)) ! 4 = 10 + 2 * (1 / 10000) * 1250
   \<and> topographic__elevation (at_node
         (channels_loop small_grid idle_step (idle_step 0) idle_step (replicate 9 (1 / 10000)) 1250
            [0, 1250] heap_state)) ! 4 = 10 + 2 * (1 / 10000) * 1250
   \<and> topographic__elevation (at_node
         (hillslope_loop small_grid idle_step (\<lambda>tc z. []) 1250 (int 2) (1 / 10000 * 1250)
            heap_state)) ! 1 = 0
   \<and> topographic__elevation (at_node
         (channels_loop small_grid idle_step (idle_step 0) idle_step (replicate 9 (1 / 10000)) 1250
            [0, 1250] heap_state)) ! 1 = 0"
proof -
  have idle: "\<And>h f. topographic__elevation (idle_step h f) = topographic__elevation f"
    by (simp add: idle_step_def)
  have idle0: "\<And>f. topographic__elevation (idle_step 0 f) = topographic__elevation f"
    by (simp add: idle_step_def)
  have entries: "length (topographic__elevation (at_node heap_state)) = number_of_nodes small_grid"
    by (simp add: small_grid_nodes heap_state_def)
  have uniform: "replicate 9 (1 / 10000) = replicate (number_of_nodes small_grid) (1 / 10000 :: real)"
    by (simp add: small_grid_nodes)
  have iterations: "length [0, 1250 :: real] = 2" by simp
  have core: "4 \<in> set (core_nodes small_grid)" by (simp add: small_grid_core)
  have boundary: "1 \<in> set (boundary_nodes small_grid)" by (simp add: small_grid_boundary)
  have at4: "topographic__elevation (at_node heap_state) ! 4 = 10"
    and at1: "topographic__elevation (at_node heap_state) ! 1 = 0"
    by (simp_all add: heap_state_def)
  note run = idle_transport_uplift_only [where run_one_step = idle_step and ld = idle_step
      and frr = "idle_step 0" and spr = idle_step and s = heap_state and g = small_grid
      and uplift_rate = "replicate 9 (1 / 10000)" and U = "1 / 10000" and t = "[0, 1250]"
      and k = 2 and dt = 1250 and figures = "\<lambda>tc z. []",
      OF idle idle idle0 idle entries uniform iterations]
  let ?h = "topographic__elevation (at_node
         (hillslope_loop small_grid idle_step (\<lambda>tc z. []) 1250 (int 2) (1 / 10000 * 1250)
            heap_state))"
  let ?c = "topographic__elevation (at_node
         (channels_loop small_grid idle_step (idle_step 0) idle_step (replicate 9 (1 / 10000)) 1250
            [0, 1250] heap_state))"
  let ?z = "topographic__elevation (at_node heap_state)"
  from run [of 4] core
  have c4: "?h ! 4 = ?z ! 4 + real 2 * (1 / 10000) * 1250"
    "?c ! 4 = ?z ! 4 + real 2 * (1 / 10000) * 1250"
    by blast+
  from run [of 1] boundary
  have b1: "?h ! 1 = ?z ! 1" "?c ! 1 = ?z ! 1"
    by blast+
  have settled: "?h ! 4 = 10 + 2 * (1 / 10000) * 1250" "?c ! 4 = 10 + 2 * (1 / 10000) * 1250"
    "?h ! 1 = 0" "?c ! 1 = 0"
    unfolding c4 b1 at4 at1 by simp_all
  show ?thesis
    using idle idle0 entries uniform iterations core boundary settled by blast
qed

text \<open>
  C2. One pass of either loop body does, to the field store and the clock, exactly what
  the specification's iteration does, in its order: uplift of the core nodes, the
  diffusion step with \<open>dt\<close>, flow routing and erosion where the notebook has them (the
  channel notebook has both, the hillslope notebooks neither), and the clock advanced
  by \<open>dt\<close>. Whatever else the body does (printing, figures) leaves the field store and
  the clock as they are.
\<close>

theorem loop_body_order:
  "field_and_clock (hillslope_body g run_one_step figures dt nt uplift_per_step i s) =
     spec_iteration g (\<lambda>_. uplift_per_step) run_one_step None None dt (field_and_clock s)
   \<and> field_and_clock (channels_body g ld frr spr uplift_rate dt s') =
     spec_iteration g (\<lambda>i. uplift_rate ! i * dt) ld (Some frr) (Some spr) dt (field_and_clock s')"
  by (simp add: hillslope_body_field_and_clock channels_body_field_and_clock)

text \<open>
  C3. The uplift statement of either loop writes core nodes only: at every boundary
  node, fixed-value or closed, the elevation after the statement is the elevation
  before it, whatever the array holds (hence in every iteration of every run); the
  array keeps its length.
\<close>

theorem uplift_writes_core_only:
  assumes "i \<in> set (boundary_nodes g)"
  shows "hillslope_uplift g uplift_per_step z ! i = z ! i
       \<and> channels_uplift g uplift_rate dt z ! i = z ! i
       \<and> length (hillslope_uplift g uplift_per_step z) = length z
       \<and> length (channels_uplift g uplift_rate dt z) = length z"
  using core_boundary_disjoint [OF assms]
  by (simp add: hillslope_uplift_def channels_uplift_def iadd_at_nth iadd_at_length)

theorem uplift_writes_core_only_witness:
  "1 \<in> set (boundary_nodes small_grid)
   \<and> hillslope_uplift small_grid (1 / 8) [0, 1, 2, 3, 4, 5, 6, 7, 8] ! 1 = [0, 1, 2, 3, 4, 5, 6, 7, 8] ! 1
   \<and> channels_uplift small_grid (replicate 9 (1 / 10000)) 1000 [0, 1, 2, 3, 4, 5, 6, 7, 8] ! 1
        = [0, 1, 2, 3, 4, 5, 6, 7, 8] ! 1
   \<and> length (hillslope_uplift small_grid (1 / 8) [0, 1, 2, 3, 4, 5, 6, 7, 8]) = length [0, 1, 2, 3, 4, 5, 6, 7, 8 :: real]
   \<and> length (channels_uplift small_grid (replicate 9 (1 / 10000)) 1000 [0, 1, 2, 3, 4, 5, 6, 7, 8])
        = length [0, 1, 2, 3, 4, 5, 6, 7, 8 :: real]"
proof -
  have b: "1 \<in> set (boundary_nodes small_grid)"
    by (simp add: small_grid_boundary)
  from uplift_writes_core_only [OF b, of "1 / 8" "[0, 1, 2, 3, 4, 5, 6, 7, 8]" "replicate 9 (1 / 10000)" 1000] b
  show ?thesis by blast
qed

text \<open>
  C4. The channel notebook is deterministic from Code Block 3 on. Let every library
  call give the same outcome on the same input, and let seeding fix the generator's
  state. Then two runs on the same grid, with the same components, uplift rate,
  timestep and number of iterations end in the same state, elevation array included,
  entry by entry, whatever states \<open>r0\<close> and \<open>r0'\<close> the generator was in before: Code
  Block 3 seeds with 56 before it draws the noise, and the loop passes each
  component's outcome on to the next in a fixed order.
\<close>

theorem channels_run_deterministic:
  assumes seed: "seed_fixes_state random_seed"
    and rand: "\<And>k. single_outcome (random_rand k)"
    and swbc: "\<And>g. single_outcome (set_watershed_boundary_condition g)"
    and ld: "\<And>g h. single_outcome (ld g h)"
    and frr: "\<And>g. single_outcome (frr g)"
    and spr: "\<And>g h. single_outcome (spr g h)"
    and first: "channels_run random_seed random_rand set_watershed_boundary_condition ld frr spr
                  mg1 x0 U dt t r0 out1"
    and second: "channels_run random_seed random_rand set_watershed_boundary_condition ld frr spr
                  mg1 x0 U dt t r0' out2"
  shows "out1 = out2
       \<and> topographic__elevation (at_node (fst out1)) = topographic__elevation (at_node (fst out2))"
proof -
  from first obtain g z1 r s where o1: "out1 = (s, r)"
    and b1: "channels_block3 random_seed random_rand set_watershed_boundary_condition mg1 r0
               ((g, z1), r)"
    and p1: "channels_passes g (ld g) (frr g) (spr g)
               (map (\<lambda>one. one * U) (replicate (number_of_nodes g) 1)) dt t
               \<lparr>at_node = \<lparr>topographic__elevation = z1, other_fields = x0\<rparr>,
                total_time = 0, shown = []\<rparr> s"
    by (auto elim: channels_run.cases)
  from second obtain g' z1' r' s' where o2: "out2 = (s', r')"
    and b2: "channels_block3 random_seed random_rand set_watershed_boundary_condition mg1 r0'
               ((g', z1'), r')"
    and p2: "channels_passes g' (ld g') (frr g') (spr g')
               (map (\<lambda>one. one * U) (replicate (number_of_nodes g') 1)) dt t
               \<lparr>at_node = \<lparr>topographic__elevation = z1', other_fields = x0\<rparr>,
                total_time = 0, shown = []\<rparr> s'"
    by (auto elim: channels_run.cases)
  have same_start: "((g', z1'), r') = ((g, z1), r)"
    using channels_block3_deterministic [OF seed rand swbc b2 b1] .
  then have "s' = s"
    using channels_passes_deterministic [OF ld frr spr p2] p1 by simp
  with same_start o1 o2 show ?thesis by simp
qed

theorem channels_run_deterministic_witness:
  "seed_fixes_state sample_seed
   \<and> (\<forall>k. single_outcome (sample_rand k))
   \<and> (\<forall>g. single_outcome (keep_boundaries g))
   \<and> (\<forall>g h. single_outcome (\<lambda>f f'. f' = drain_step g h f))
   \<and> (\<forall>g :: grid. single_outcome (\<lambda>f f'. f' = idle_step 0 f))
   \<and> (\<forall>(g :: grid) h. single_outcome (\<lambda>f f'. f' = idle_step h f))
   \<and> (\<exists>out.
         channels_run sample_seed sample_rand keep_boundaries
           (\<lambda>g h f f'. f' = drain_step g h f) (\<lambda>g f f'. f' = idle_step 0 f)
           (\<lambda>g h f f'. f' = idle_step h f) small_grid () (1 / 10000) 1000 [0, 1000] 0 out
       \<and> {out'. channels_run sample_seed sample_rand keep_boundaries
           (\<lambda>g h f f'. f' = drain_step g h f) (\<lambda>g f f'. f' = idle_step 0 f)
           (\<lambda>g h f f'. f' = idle_step h f) small_grid () (1 / 10000) 1000 [0, 1000] 7 out'}
          = {out})"
proof -
  let ?ld = "\<lambda>g h f f'. f' = drain_step g h f"
  let ?frr = "\<lambda>(g :: grid) f f'. f' = idle_step 0 f"
  let ?spr = "\<lambda>(g :: grid) h f f'. f' = idle_step h f"
  have seed: "seed_fixes_state sample_seed"
    by (simp add: seed_fixes_state_def sample_seed_def)
  have rand: "\<And>k. single_outcome (sample_rand k)"
    by (simp add: single_outcome_def sample_rand_def)
  have swbc: "\<And>g. single_outcome (keep_boundaries g)"
    by (simp add: single_outcome_def keep_boundaries_def)
  have ld: "\<And>g h. single_outcome (?ld g h)"
    by (simp add: single_outcome_def)
  have frr: "\<And>g. single_outcome (?frr g)"
    by (simp add: single_outcome_def)
  have spr: "\<And>g h. single_outcome (?spr g h)"
    by (simp add: single_outcome_def)
  have runs: "\<exists>out. channels_run sample_seed sample_rand keep_boundaries ?ld ?frr ?spr
                small_grid () (1 / 10000) 1000 [0, 1000] r0 out" for r0
    using channels_run_graph [OF sample_block3, where ld = drain_step
        and frr = "\<lambda>g. idle_step 0" and spr = "\<lambda>g. idle_step"]
    by blast
  from runs [of 0] obtain out where first:
    "channels_run sample_seed sample_rand keep_boundaries ?ld ?frr ?spr
       small_grid () (1 / 10000) 1000 [0, 1000] 0 out" ..
  from runs [of 7] obtain out7 where second:
    "channels_run sample_seed sample_rand keep_boundaries ?ld ?frr ?spr
       small_grid () (1 / 10000) 1000 [0, 1000] 7 out7" ..
  have same: "out = out'"
    if "channels_run sample_seed sample_rand keep_boundaries ?ld ?frr ?spr
          small_grid () (1 / 10000) 1000 [0, 1000] 7 out'" for out'
    using channels_run_deterministic [OF seed rand swbc ld frr spr first that] by simp
  have o7: "out = out7"
    by (rule same [OF second])
  have "{out'. channels_run sample_seed sample_rand keep_boundaries ?ld ?frr ?spr
          small_grid () (1 / 10000) 1000 [0, 1000] 7 out'} = {out}"
  proof (intro equalityI subsetI)
    fix x
    assume "x \<in> {out'. channels_run sample_seed sample_rand keep_boundaries ?ld ?frr ?spr
          small_grid () (1 / 10000) 1000 [0, 1000] 7 out'}"
    then have "out = x" using same by simp
    then show "x \<in> {out}" by simp
  next
    fix x
    assume "x \<in> {out}"
    then have "x = out7" using o7 by simp
    then show "x \<in> {out'. channels_run sample_seed sample_rand keep_boundaries ?ld ?frr ?spr
          small_grid () (1 / 10000) 1000 [0, 1000] 7 out'}"
      using second by simp
  qed
  with first seed rand swbc ld frr spr show ?thesis by blast
qed

text \<open>
  The sum over the core nodes can fall from one iteration to the next, with positive
  uplift and a transport step that injects nothing and removes mass only through the
  open boundary. On \<open>small_grid\<close> with the core node at 10, the notebook's timestep
  1250 and uplift rate 0.0001, the export of \<open>drain_step\<close> exceeds the uplift of an
  iteration: the sum goes from 10 to 81/16 and on to 83/32, so it falls twice in a row
  and the field is still changing after the first fall.
\<close>

theorem core_sum_falls_counterexample:
  "(0 :: real) < 1 / 10000 * 1250
   \<and> exports_only small_grid (drain_step small_grid)
   \<and> core_sum small_grid (topographic__elevation (at_node
         (hillslope_loop small_grid (drain_step small_grid) (\<lambda>tc z. []) 1250 1
            (1 / 10000 * 1250) heap_state)))
       < core_sum small_grid (topographic__elevation (at_node heap_state))
   \<and> core_sum small_grid (topographic__elevation (at_node
         (hillslope_loop small_grid (drain_step small_grid) (\<lambda>tc z. []) 1250 2
            (1 / 10000 * 1250) heap_state)))
       < core_sum small_grid (topographic__elevation (at_node
           (hillslope_loop small_grid (drain_step small_grid) (\<lambda>tc z. []) 1250 1
              (1 / 10000 * 1250) heap_state)))"
proof -
  have ups: "(1 / 10000 * 1250 :: real) = 1 / 8" by simp
  have start: "core_sum small_grid (topographic__elevation (at_node heap_state)) = 10"
    by (simp add: core_sum_def small_grid_core heap_state_def)
  show ?thesis
    unfolding ups heap_one_pass heap_two_passes start
    by (simp add: drain_step_exports_only core_sum_def small_grid_core)
qed

text \<open>
  C6, as amended. The uplift statement of an iteration adds to the sum of elevation
  over the core nodes exactly the increments of the core nodes (in the hillslope
  notebooks the number of core nodes times \<open>uplift_per_step\<close>); the sum does not
  decrease across an iteration whenever the transport, routing and erosion steps of
  that iteration lower it by no more than that amount. The elevation array has an
  entry for every node.
\<close>

theorem core_sum_balance:
  fixes g :: grid and s :: "'x notebook_state" and uplift_per_step dt :: real
    and uplift_rate :: "real list"
    and run_one_step ld spr :: "real \<Rightarrow> 'x fields \<Rightarrow> 'x fields"
    and frr :: "'x fields \<Rightarrow> 'x fields"
  defines "z \<equiv> topographic__elevation (at_node s)"
  defines "fh \<equiv> (at_node s)\<lparr>topographic__elevation := hillslope_uplift g uplift_per_step z\<rparr>"
  defines "fc \<equiv> (at_node s)\<lparr>topographic__elevation := channels_uplift g uplift_rate dt z\<rparr>"
  assumes entries: "number_of_nodes g \<le> length z"
  shows "core_sum g (topographic__elevation fh)
           = core_sum g z + real (length (core_nodes g)) * uplift_per_step
       \<and> core_sum g (topographic__elevation fc)
           = core_sum g z + sum_list (map (\<lambda>i. uplift_rate ! i * dt) (core_nodes g))
       \<and> (core_sum g (topographic__elevation fh)
             - core_sum g (topographic__elevation (run_one_step dt fh))
             \<le> real (length (core_nodes g)) * uplift_per_step
           \<longrightarrow> core_sum g z \<le> core_sum g (topographic__elevation (at_node
                 (hillslope_body g run_one_step figures dt nt uplift_per_step i s))))
       \<and> (core_sum g (topographic__elevation fc)
             - core_sum g (topographic__elevation (spr dt (frr (ld dt fc))))
             \<le> sum_list (map (\<lambda>i. uplift_rate ! i * dt) (core_nodes g))
           \<longrightarrow> core_sum g z \<le> core_sum g (topographic__elevation (at_node
                 (channels_body g ld frr spr uplift_rate dt s))))"
proof -
  have h: "core_sum g (topographic__elevation fh)
           = core_sum g z + real (length (core_nodes g)) * uplift_per_step"
    using core_sum_spec_uplift [OF entries, of "\<lambda>_. uplift_per_step"]
    by (simp add: fh_def hillslope_uplift_def iadd_at_spec_uplift sum_list_triv)
  have c: "core_sum g (topographic__elevation fc)
           = core_sum g z + sum_list (map (\<lambda>i. uplift_rate ! i * dt) (core_nodes g))"
    using core_sum_spec_uplift [OF entries, of "\<lambda>i. uplift_rate ! i * dt"]
    by (simp add: fc_def channels_uplift_def iadd_at_spec_uplift)
  have hb: "at_node (hillslope_body g run_one_step figures dt nt uplift_per_step i s)
            = run_one_step dt fh"
    by (simp add: hillslope_body_def Let_def fh_def z_def)
  have cb: "at_node (channels_body g ld frr spr uplift_rate dt s) = spr dt (frr (ld dt fc))"
    by (simp add: channels_body_def Let_def fc_def z_def)
  show ?thesis
    unfolding hb cb using h c by simp
qed

theorem core_sum_balance_witness:
  "number_of_nodes small_grid \<le> length (topographic__elevation (at_node flat_state))
   \<and> core_sum small_grid (topographic__elevation
         ((at_node flat_state)\<lparr>topographic__elevation :=
            hillslope_uplift small_grid (1 / 8) (topographic__elevation (at_node flat_state))\<rparr>))
       - core_sum small_grid (topographic__elevation (drain_step small_grid 1250
         ((at_node flat_state)\<lparr>topographic__elevation :=
            hillslope_uplift small_grid (1 / 8) (topographic__elevation (at_node flat_state))\<rparr>)))
       \<le> real (length (core_nodes small_grid)) * (1 / 8)
   \<and> core_sum small_grid (topographic__elevation (at_node flat_state))
       \<le> core_sum small_grid (topographic__elevation (at_node
             (hillslope_body small_grid (drain_step small_grid) (\<lambda>tc z. []) 1250 800 (1 / 8) 0
                flat_state)))
   \<and> core_sum small_grid (topographic__elevation
         ((at_node flat_state)\<lparr>topographic__elevation :=
            channels_uplift small_grid (replicate 9 (1 / 10000)) 1250
              (topographic__elevation (at_node flat_state))\<rparr>))
       - core_sum small_grid (topographic__elevation (idle_step 1250 (idle_step 0
           (drain_step small_grid 1250
              ((at_node flat_state)\<lparr>topographic__elevation :=
                 channels_uplift small_grid (replicate 9 (1 / 10000)) 1250
                   (topographic__elevation (at_node flat_state))\<rparr>)))))
       \<le> sum_list (map (\<lambda>i. replicate 9 (1 / 10000) ! i * 1250) (core_nodes small_grid))
   \<and> core_sum small_grid (topographic__elevation (at_node flat_state))
       \<le> core_sum small_grid (topographic__elevation (at_node
             (channels_body small_grid (drain_step small_grid) (idle_step 0) idle_step
                (replicate 9 (1 / 10000)) 1250 flat_state)))"
proof -
  have entries: "number_of_nodes small_grid
      \<le> length (topographic__elevation (at_node flat_state))"
    by (simp add: small_grid_nodes flat_state_def)
  have loss_h: "core_sum small_grid (topographic__elevation
         ((at_node flat_state)\<lparr>topographic__elevation :=
            hillslope_uplift small_grid (1 / 8) (topographic__elevation (at_node flat_state))\<rparr>))
       - core_sum small_grid (topographic__elevation (drain_step small_grid 1250
         ((at_node flat_state)\<lparr>topographic__elevation :=
            hillslope_uplift small_grid (1 / 8) (topographic__elevation (at_node flat_state))\<rparr>)))
       \<le> real (length (core_nodes small_grid)) * (1 / 8)"
    by (simp add: core_sum_def small_grid_core flat_state_def hillslope_uplift_def iadd_at_def
        drain_step_def upt_rec [of _ "numeral _"])
  have loss_c: "core_sum small_grid (topographic__elevation
         ((at_node flat_state)\<lparr>topographic__elevation :=
            channels_uplift small_grid (replicate 9 (1 / 10000)) 1250
              (topographic__elevation (at_node flat_state))\<rparr>))
       - core_sum small_grid (topographic__elevation (idle_step 1250 (idle_step 0
           (drain_step small_grid 1250
              ((at_node flat_state)\<lparr>topographic__elevation :=
                 channels_uplift small_grid (replicate 9 (1 / 10000)) 1250
                   (topographic__elevation (at_node flat_state))\<rparr>)))))
       \<le> sum_list (map (\<lambda>i. replicate 9 (1 / 10000) ! i * 1250) (core_nodes small_grid))"
    by (simp add: core_sum_def small_grid_core flat_state_def channels_uplift_def iadd_at_def
        drain_step_def idle_step_def upt_rec [of _ "numeral _"])
  from core_sum_balance [where g = small_grid and s = flat_state and uplift_per_step = "1 / 8"
      and dt = 1250 and uplift_rate = "replicate 9 (1 / 10000)"
      and run_one_step = "drain_step small_grid" and ld = "drain_step small_grid"
      and frr = "idle_step 0" and spr = idle_step and figures = "\<lambda>tc z. []" and nt = 800
      and i = 0, OF entries] entries loss_h loss_c
  show ?thesis by blast
qed

text \<open>
  C7. In the hillslope notebooks the timestep is the one constant of Code Block 4,
  \<open>dt = 0.5 dx dx / D\<close>, half of \<open>dx\<^sup>2 / D\<close>, for every spacing and every positive
  diffusivity, and that constant is what the loop runs with. The loop itself takes
  whatever \<open>dt\<close> it is given: for every \<open>dt\<close> it runs all its iterations, hands the
  diffuser that \<open>dt\<close> and advances the clock by it; nothing compares \<open>dt\<close> to the
  stability bound.
\<close>

theorem timestep_is_half_dx2_over_D:
  "(0 < D \<longrightarrow> stable_dt g D = Finite (1 / 2 * ((dx g)\<^sup>2 / D)))
   \<and> (0 < D \<longrightarrow> dx g \<noteq> 0 \<longrightarrow>
        hillslope_run floor_divide g diffuser figures D U runtime ys f0 =
          Inr (hillslope_loop g (diffuser g D) figures (1 / 2 * ((dx g)\<^sup>2 / D))
                 (floor_divide runtime (1 / 2 * ((dx g)\<^sup>2 / D)))
                 (U * (1 / 2 * ((dx g)\<^sup>2 / D)))
                 \<lparr>at_node = f0, total_time = 0, shown = []\<rparr>))
   \<and> field_and_clock (hillslope_loop g run_one_step figures dt nt uplift_per_step s) =
       (spec_iteration g (\<lambda>_. uplift_per_step) run_one_step None None dt ^^ nat nt)
         (field_and_clock s)
   \<and> total_time (hillslope_loop g run_one_step figures dt nt uplift_per_step s) =
       total_time s + real (nat nt) * dt"
  by (simp add: stable_dt_value hillslope_run_def code_block4_value code_block7_finite
      zs_def truediv_def hillslope_loop_field_and_clock hillslope_loop_clock)

theorem timestep_is_half_dx2_over_D_witness:
  "(0 :: real) < 1 / 100 \<and> dx small_grid \<noteq> 0
   \<and> stable_dt small_grid (1 / 100) = Finite 1250
   \<and> hillslope_run exact_floor_divide small_grid idle_diffuser (\<lambda>tc z. []) (1 / 100)
        (1 / 10000) 3000 [0, 1] \<lparr>topographic__elevation = replicate 9 0, other_fields = ()\<rparr> =
          Inr (hillslope_loop small_grid (idle_diffuser small_grid (1 / 100)) (\<lambda>tc z. []) 1250 2
                 (1 / 8)
                 \<lparr>at_node = \<lparr>topographic__elevation = replicate 9 0, other_fields = ()\<rparr>,
                  total_time = 0, shown = []\<rparr>)
   \<and> total_time (hillslope_loop small_grid idle_step (\<lambda>tc z. []) 5000 2 (1 / 2)
        \<lparr>at_node = \<lparr>topographic__elevation = replicate 9 0, other_fields = ()\<rparr>,
         total_time = 0, shown = []\<rparr>) = 10000"
proof -
  have pos: "(0 :: real) < 1 / 100" by simp
  have sp: "dx small_grid \<noteq> 0" by (simp add: small_grid_def)
  have fl: "exact_floor_divide 3000 1250 = 2"
    by (simp add: exact_floor_divide_def floor_eq_iff)
  have dxv: "dx small_grid = 5" by (simp add: small_grid_def)
  from timestep_is_half_dx2_over_D [where D = "1 / 100" and g = small_grid
      and floor_divide = exact_floor_divide and diffuser = idle_diffuser
      and figures = "\<lambda>tc z. []" and U = "1 / 10000" and runtime = 3000 and ys = "[0, 1]"
      and ?f0.0 = "\<lparr>topographic__elevation = replicate 9 0, other_fields = ()\<rparr>"
      and run_one_step = idle_step and dt = 5000 and nt = 2 and uplift_per_step = "1 / 2"
      and s = "\<lparr>at_node = \<lparr>topographic__elevation = replicate 9 0, other_fields = ()\<rparr>,
        total_time = 0, shown = []\<rparr>"] pos sp
  show ?thesis by (simp add: dxv fl)
qed

text \<open>
  C8. Running a loop for \<open>k1\<close> iterations and running it again for \<open>k2\<close> more, with
  nothing reset in between, is one run of \<open>k1 + k2\<close> iterations: the channel loop
  reaches the same state, field store and \<open>total_time\<close> included; the hillslope loop
  reaches the same field store and clock (its figure is drawn at another index).
\<close>

theorem continuation_is_one_run:
  assumes "length t1 = k1" and "length t2 = k2" and "length t = k1 + k2"
  shows "channels_loop g ld frr spr uplift_rate dt t2
           (channels_loop g ld frr spr uplift_rate dt t1 s)
         = channels_loop g ld frr spr uplift_rate dt t s
       \<and> field_and_clock
           (hillslope_loop g run_one_step figures dt' (int k2) uplift_per_step
              (hillslope_loop g run_one_step figures dt' (int k1) uplift_per_step s'))
         = field_and_clock
             (hillslope_loop g run_one_step figures dt' (int (k1 + k2)) uplift_per_step s')"
proof -
  have cont: "(f ^^ k2) ((f ^^ k1) x) = (f ^^ (k1 + k2)) x" for f :: "'z \<Rightarrow> 'z" and x
    by (metis add.commute comp_apply funpow_add)
  have k: "nat (int (k1 + k2)) = k1 + k2" by simp
  show ?thesis
    unfolding channels_loop_funpow hillslope_loop_field_and_clock assms nat_int k
    by (simp only: cont)
qed

theorem continuation_is_one_run_witness:
  "length [0, 1000 :: real] = 2 \<and> length [0 :: real] = 1 \<and> length [0, 1000, 2000 :: real] = 2 + 1
   \<and> channels_loop small_grid idle_step (idle_step 0) idle_step (replicate 9 (1 / 10000)) 1000 [0]
         (channels_loop small_grid idle_step (idle_step 0) idle_step (replicate 9 (1 / 10000)) 1000
            [0, 1000]
            \<lparr>at_node = \<lparr>topographic__elevation = replicate 9 0, other_fields = ()\<rparr>,
             total_time = 0, shown = []\<rparr>)
       = channels_loop small_grid idle_step (idle_step 0) idle_step (replicate 9 (1 / 10000)) 1000
           [0, 1000, 2000]
           \<lparr>at_node = \<lparr>topographic__elevation = replicate 9 0, other_fields = ()\<rparr>,
            total_time = 0, shown = []\<rparr>
   \<and> field_and_clock
         (hillslope_loop small_grid idle_step (\<lambda>tc z. [Figure tc z]) 1250 (int 1) (1 / 8)
            (hillslope_loop small_grid idle_step (\<lambda>tc z. [Figure tc z]) 1250 (int 2) (1 / 8)
               \<lparr>at_node = \<lparr>topographic__elevation = replicate 9 0, other_fields = ()\<rparr>,
                total_time = 0, shown = []\<rparr>))
       = field_and_clock
           (hillslope_loop small_grid idle_step (\<lambda>tc z. [Figure tc z]) 1250 (int (2 + 1)) (1 / 8)
              \<lparr>at_node = \<lparr>topographic__elevation = replicate 9 0, other_fields = ()\<rparr>,
               total_time = 0, shown = []\<rparr>)"
proof -
  have l1: "length [0, 1000 :: real] = 2" and l2: "length [0 :: real] = 1"
    and l3: "length [0, 1000, 2000 :: real] = 2 + 1"
    by simp_all
  from continuation_is_one_run [OF l1 l2 l3] l1 l2 l3
  show ?thesis by blast
qed

text \<open>
  With diffusivity 0 the timestep computation of Code Block 4 does not fail: on
  \<open>small_grid\<close> with the notebook's uplift rate and runtime it gives \<open>dt = inf\<close> and the
  block completes with \<open>nt = 0\<close> and \<open>uplift_per_step = inf\<close>.
\<close>

theorem timestep_at_zero_diffusivity_counterexample:
  "stable_dt small_grid 0 = PosInf
   \<and> code_block4 exact_floor_divide small_grid 0 (1 / 10000) 1000000 = Inr (PosInf, 0, 0, PosInf)"
  by (simp add: stable_dt_def np_divide_def code_block4_def int_floor_divide_def
      np_multiply_def small_grid_def)

text \<open>
  C9, as amended. Nothing validates the diffusivity. With diffusivity 0 and a spacing
  other than 0, Code Block 4 raises nothing: \<open>dt\<close> is \<open>inf\<close>, \<open>nt\<close> is 0 (-1 for a
  negative runtime) and the loop run on the block's values makes no pass. In a run
  from top to bottom the division by zero of Code Block 5, \<^verbatim>\<open>uplift_rate / (2 * D)\<close>,
  raises ZeroDivisionError before the loop is reached; nothing catches it, and the
  field store is the one Code Block 2 made.
\<close>

theorem zero_diffusivity_run:
  assumes "dx g \<noteq> 0"
  shows "stable_dt g 0 = PosInf
       \<and> code_block4 floor_divide g 0 uplift_rate runtime =
           Inr (PosInf, (if 0 \<le> runtime then 0 else - 1), 0, np_multiply uplift_rate PosInf)
       \<and> code_block7 g run_one_step figures PosInf (if 0 \<le> runtime then 0 else - 1)
           (np_multiply uplift_rate PosInf) s = s
       \<and> zs g uplift_rate 0 ys = Inl ZeroDivisionError
       \<and> hillslope_run floor_divide g diffuser figures 0 uplift_rate runtime ys f0 =
           Inl (ZeroDivisionError, f0)"
proof -
  have dt: "stable_dt g 0 = PosInf"
    using assms by (simp add: stable_dt_def np_divide_def)
  have cb: "code_block4 floor_divide g 0 uplift_rate runtime =
      Inr (PosInf, (if 0 \<le> runtime then 0 else - 1), 0, np_multiply uplift_rate PosInf)"
    by (simp add: code_block4_def dt int_floor_divide_def)
  have loop: "code_block7 g run_one_step figures PosInf (if 0 \<le> runtime then 0 else - 1)
      (np_multiply uplift_rate PosInf) s = s"
    by (simp add: code_block7_def)
  have profile: "zs g uplift_rate 0 ys = Inl ZeroDivisionError"
    by (simp add: zs_def truediv_def)
  have run: "hillslope_run floor_divide g diffuser figures 0 uplift_rate runtime ys f0 =
      Inl (ZeroDivisionError, f0)"
    by (simp add: hillslope_run_def cb profile)
  show ?thesis
    using dt cb loop profile run by simp
qed

theorem zero_diffusivity_run_witness:
  "dx small_grid \<noteq> 0
   \<and> stable_dt small_grid 0 = PosInf
   \<and> code_block4 exact_floor_divide small_grid 0 (1 / 10000) 1000000 = Inr (PosInf, 0, 0, PosInf)
   \<and> code_block7 small_grid (drain_step small_grid) (\<lambda>tc z. []) PosInf 0 PosInf heap_state
       = heap_state
   \<and> zs small_grid (1 / 10000) 0 [0, 1] = Inl ZeroDivisionError
   \<and> hillslope_run exact_floor_divide small_grid idle_diffuser (\<lambda>tc z. []) 0 (1 / 10000) 1000000
       [0, 1] (at_node heap_state) = Inl (ZeroDivisionError, at_node heap_state)"
proof -
  have sp: "dx small_grid \<noteq> 0" by (simp add: small_grid_def)
  from zero_diffusivity_run [OF sp, where floor_divide = exact_floor_divide
      and uplift_rate = "1 / 10000" and runtime = 1000000
      and run_one_step = "drain_step small_grid" and figures = "\<lambda>tc z. []" and s = heap_state
      and ys = "[0, 1]" and diffuser = idle_diffuser and ?f0.0 = "at_node heap_state"] sp
  show ?thesis by (simp add: np_multiply_def)
qed

text \<open>
  C5. The analytical steady-state profile of Code Block 5 is, entry by entry, the
  closed-form parabola of the specification with \<open>L = number_of_node_rows * dx - dx\<close>:
  for every uplift rate, every positive diffusivity and every \<open>y\<close> the computation
  succeeds and returns \<open>(U/2D) (L\<^sup>2/4 - (y - L/2)\<^sup>2)\<close>; the same holds for the whole array.
\<close>

theorem zs_refines_spec_profile:
  assumes "0 < D"
  shows "zs_at g U D y = Inr (spec_profile U D (spec_domain_length g) y)
       \<and> zs g U D ys = Inr (map (spec_profile U D (spec_domain_length g)) ys)"
  using assms
  by (simp add: zs_at_def zs_def truediv_def spec_profile_def spec_domain_length_def
      half_width_def divide_loc_def power_divide)

theorem zs_refines_spec_profile_witness:
  "(0::real) < 1 / 100
   \<and> zs_at small_grid (1 / 10000) (1 / 100) 3 = Inr (spec_profile (1 / 10000) (1 / 100) (spec_domain_length small_grid) 3)
   \<and> zs small_grid (1 / 10000) (1 / 100) [0, 1] =
       Inr (map (spec_profile (1 / 10000) (1 / 100) (spec_domain_length small_grid)) [0, 1])"
proof -
  have pos: "(0::real) < 1 / 100" by simp
  from zs_refines_spec_profile [OF pos, of small_grid "1 / 10000" 3 "[0, 1]"] pos
  show ?thesis by blast
qed

end
